theory Spec2Isabelle
  imports Complex_Main "HOL-Library.Sublist"
begin

section \<open>Strings and the regular expressions of translationService\<close>

text \<open>
  JavaScript strings are modelled as \<^typ>\<open>string\<close>, a list of 8-bit characters.
  The model is exact on ASCII text. A character beyond ASCII is carried as the bytes of
  its UTF-8 encoding: it is never white space, never a word character and is left
  alone by \<open>toLowerCase\<close>, so the model says nothing reliable about the case folding
  or the Unicode white space of non-ASCII input.
\<close>

definition is_space :: "char \<Rightarrow> bool" where
  \<comment> \<open>the class \<open>\s\<close> and the characters removed by \<open>trim()\<close>, on ASCII\<close>
  "is_space c \<longleftrightarrow>
     c = CHR '' '' \<or> c = CHR 0x09 \<or> c = CHR 0x0A \<or> c = CHR 0x0B \<or> c = CHR 0x0C \<or> c = CHR 0x0D"

definition is_digit :: "char \<Rightarrow> bool" where
  \<comment> \<open>the class \<open>\d\<close>\<close>
  "is_digit c \<longleftrightarrow> (48::nat) \<le> of_char c \<and> of_char c \<le> (57::nat)"

definition is_upper :: "char \<Rightarrow> bool" where
  "is_upper c \<longleftrightarrow> (65::nat) \<le> of_char c \<and> of_char c \<le> (90::nat)"

definition is_lower :: "char \<Rightarrow> bool" where
  "is_lower c \<longleftrightarrow> (97::nat) \<le> of_char c \<and> of_char c \<le> (122::nat)"

definition is_word :: "char \<Rightarrow> bool" where
  \<comment> \<open>the class \<open>\w\<close>: \<open>[A-Za-z0-9_]\<close>\<close>
  "is_word c \<longleftrightarrow> is_upper c \<or> is_lower c \<or> is_digit c \<or> c = CHR ''_''"

definition lower_char :: "char \<Rightarrow> char" where
  "lower_char c = (if is_upper c then char_of (of_char c + (32::nat)) else c)"

definition toLowerCase :: "string \<Rightarrow> string" where
  "toLowerCase s = map lower_char s"

definition trim :: "string \<Rightarrow> string" where
  "trim s = rev (dropWhile is_space (rev (dropWhile is_space s)))"

text \<open>
  \<open>str.replace(re, r)\<close>. A regular expression is given by its matcher: applied to the
  character before the current position (if any) and to the rest of the input, the
  matcher returns the length of the match that starts at the current position, or
  \<open>None\<close>. \<open>replace_g\<close> is the replacement under the \<open>g\<close> flag: the input is scanned
  from the left, every match is replaced by \<open>r\<close> and the scan resumes behind it (one
  character further after an empty match). The \<open>nat\<close> argument counts the characters of
  the current match that are still to be dropped. \<open>replace_1\<close> replaces the leftmost
  match only.
\<close>

type_synonym matcher = "char option \<Rightarrow> string \<Rightarrow> nat option"

fun replace_g :: "matcher \<Rightarrow> string \<Rightarrow> char option \<Rightarrow> nat \<Rightarrow> string \<Rightarrow> string" where
  "replace_g m r prev (Suc k) [] = []"
| "replace_g m r prev 0 [] = (case m prev [] of None \<Rightarrow> [] | Some n \<Rightarrow> r)"
| "replace_g m r prev (Suc k) (c # cs) = replace_g m r (Some c) k cs"
| "replace_g m r prev 0 (c # cs) =
     (case m prev (c # cs) of
        None \<Rightarrow> c # replace_g m r (Some c) 0 cs
      | Some 0 \<Rightarrow> r @ c # replace_g m r (Some c) 0 cs
      | Some (Suc k) \<Rightarrow> r @ replace_g m r (Some c) k cs)"

fun replace_1 :: "matcher \<Rightarrow> string \<Rightarrow> char option \<Rightarrow> string \<Rightarrow> string" where
  "replace_1 m r prev [] = (case m prev [] of None \<Rightarrow> [] | Some n \<Rightarrow> r)"
| "replace_1 m r prev (c # cs) =
     (case m prev (c # cs) of
        None \<Rightarrow> c # replace_1 m r (Some c) cs
      | Some n \<Rightarrow> r @ drop n (c # cs))"

definition boundary :: "char option \<Rightarrow> string \<Rightarrow> bool" where
  \<comment> \<open>the assertion \<open>\b\<close> between the previous character and the rest of the input\<close>
  "boundary prev s \<longleftrightarrow>
     (case prev of None \<Rightarrow> False | Some p \<Rightarrow> is_word p) \<noteq>
     (case s of [] \<Rightarrow> False | c # cs \<Rightarrow> is_word c)"

definition starts_with :: "string \<Rightarrow> string \<Rightarrow> bool" where
  \<comment> \<open>the literal \<open>w\<close>, in lower case, matches the beginning of \<open>s\<close> without regard to case\<close>
  "starts_with w s \<longleftrightarrow> length w \<le> length s \<and> toLowerCase (take (length w) s) = w"

definition m_separator :: matcher where
  \<comment> \<open>\<open>/[_-]/\<close> and \<open>/[-_]/\<close>\<close>
  "m_separator prev s =
     (case s of [] \<Rightarrow> None | c # cs \<Rightarrow> if c = CHR ''_'' \<or> c = CHR ''-'' then Some 1 else None)"

definition m_spaces :: matcher where
  \<comment> \<open>\<open>/\s+/\<close>\<close>
  "m_spaces prev s =
     (let n = length (takeWhile is_space s) in if n = 0 then None else Some n)"

definition m_extension :: matcher where
  \<comment> \<open>\<open>/\.(jpg|jpeg|png|svg|webp|gif)$/i\<close>\<close>
  "m_extension prev s =
     (case s of
        [] \<Rightarrow> None
      | c # cs \<Rightarrow>
          if c = CHR ''.'' \<and>
             toLowerCase cs \<in> set [''jpg'', ''jpeg'', ''png'', ''svg'', ''webp'', ''gif'']
          then Some (length s) else None)"

definition copy_number :: "string \<Rightarrow> nat" where
  \<comment> \<open>the optional group \<open>(\(\d+\)|\d+)?\<close>: the number of characters it consumes\<close>
  "copy_number s =
     (case s of
        [] \<Rightarrow> 0
      | c # cs \<Rightarrow>
          (let d = length (takeWhile is_digit cs) in
           if c = CHR ''('' \<and> 0 < d \<and> take 1 (drop d cs) = '')'' then d + 2
           else length (takeWhile is_digit s)))"

definition m_copy :: matcher where
  \<comment> \<open>\<open>/\s*-?\s*copy\s*(\(\d+\)|\d+)?/i\<close>\<close>
  "m_copy prev s =
     (let a = length (takeWhile is_space s);
          s1 = drop a s;
          b = (if take 1 s1 = ''-'' then 1 else 0);
          s2 = drop b s1;
          c = length (takeWhile is_space s2);
          s3 = drop c s2
      in if starts_with ''copy'' s3 then
           (let s4 = drop 4 s3;
                d = length (takeWhile is_space s4)
            in Some (a + b + c + 4 + d + copy_number (drop d s4)))
         else None)"

definition m_words :: "string list \<Rightarrow> bool \<Rightarrow> matcher" where
  \<comment> \<open>\<open>/\b(w1|w2|...)\b/\<close>, with the \<open>i\<close> flag when \<open>ci\<close> is set\<close>
  "m_words ws ci prev s =
     (if boundary prev s then
        map_option length
          (find (\<lambda>w. (if ci then starts_with w s else length w \<le> length s \<and> take (length w) s = w) \<and>
                     boundary (Some (last w)) (drop (length w) s)) ws)
      else None)"

subsection \<open>translationService\<close>

definition normalizeTitle :: "string \<Rightarrow> string" where
  "normalizeTitle title =
     trim (replace_g m_spaces '' '' None 0
       (replace_g m_separator '' '' None 0 (toLowerCase title)))"

definition extractBookTitle :: "string \<Rightarrow> string" where
  "extractBookTitle filename =
     trim (replace_g m_spaces '' '' None 0
       (replace_g m_copy [] None 0
         (replace_g m_separator '' '' None 0
           (replace_1 m_extension [] None filename))))"

text \<open>
  Everything a call can throw. \<open>ConfigError\<close> is the missing API key, \<open>ApiError\<close> a
  response whose status is not ok, \<open>NetworkError\<close> a request that produced no usable
  response; the next three are the ways \<open>calculateHash\<close> fails.
\<close>

datatype error =
  ConfigError | ApiError nat | NetworkError
| WasmInitError | ImageFetchError | ImageDecodeError
| TypeError

definition utf8 :: "nat list \<Rightarrow> string" where
  "utf8 bs = map char_of bs"

definition COMMON_TRANSLATIONS :: "(string \<times> string list) list" where
  \<comment> \<open>the entries beyond ASCII are written as their UTF-8 bytes\<close>
  "COMMON_TRANSLATIONS =
     [(''harry potter'',
        [''harry potter'',
         utf8 [0xD0, 0xB3, 0xD0, 0xB0, 0xD1, 0x80, 0xD1, 0x80, 0xD0, 0xB8, 0x20, 0xD0, 0xBF,
               0xD0, 0xBE, 0xD1, 0x82, 0xD1, 0x82, 0xD0, 0xB5, 0xD1, 0x80],
         utf8 [0xE3, 0x83, 0x8F, 0xE3, 0x83, 0xAA, 0xE3, 0x83, 0xBC, 0xE3, 0x83, 0xBB, 0xE3,
               0x83, 0x9D, 0xE3, 0x83, 0x83, 0xE3, 0x82, 0xBF, 0xE3, 0x83, 0xBC],
         utf8 [0xE5, 0x93, 0x88, 0xE5, 0x88, 0xA9, 0xC2, 0xB7, 0xE6, 0xB3, 0xA2, 0xE7, 0x89,
               0xB9]]),
      (''lord of the rings'',
        [''lord of the rings'',
         utf8 [0x73, 0x65, 0xC3, 0xB1, 0x6F, 0x72, 0x20, 0x64, 0x65, 0x20, 0x6C, 0x6F, 0x73,
               0x20, 0x61, 0x6E, 0x69, 0x6C, 0x6C, 0x6F, 0x73],
         utf8 [0xD0, 0xB2, 0xD0, 0xBB, 0xD0, 0xB0, 0xD1, 0x81, 0xD1, 0x82, 0xD0, 0xB5, 0xD0,
               0xBB, 0xD0, 0xB8, 0xD0, 0xBD, 0x20, 0xD0, 0xBA, 0xD0, 0xBE, 0xD0, 0xBB, 0xD0,
               0xB5, 0xD1, 0x86]])]"

text \<open>
  \<open>COMMON_TRANSLATIONS[key]\<close> reads a property of an object literal, so a key that the
  table does not own is looked up in \<open>Object.prototype\<close>. Every member found there is
  truthy and has no \<open>forEach\<close>: the call \<open>COMMON_TRANSLATIONS[key].forEach(...)\<close> then
  throws a TypeError.
\<close>

datatype property = Own "string list" | Inherited | Undefined

definition Object_prototype :: "string list" where
  "Object_prototype =
     [''constructor'', ''hasOwnProperty'', ''isPrototypeOf'', ''propertyIsEnumerable'',
      ''toLocaleString'', ''toString'', ''valueOf'', ''__defineGetter__'',
      ''__defineSetter__'', ''__lookupGetter__'', ''__lookupSetter__'', ''__proto__'']"

definition get_property :: "string \<Rightarrow> property" where
  "get_property key =
     (case map_of COMMON_TRANSLATIONS key of
        Some ts \<Rightarrow> Own ts
      | None \<Rightarrow> if key \<in> set Object_prototype then Inherited else Undefined)"

definition Set_add :: "string list \<Rightarrow> string \<Rightarrow> string list" where
  \<comment> \<open>\<open>Set.prototype.add\<close>: a Set is the list of its members in insertion order\<close>
  "Set_add vs v = (if v \<in> set vs then vs else vs @ [v])"

definition withoutCommon :: "string \<Rightarrow> string" where
  "withoutCommon normalized =
     trim (replace_g m_spaces '' '' None 0
       (replace_g (m_words [''the'', ''a'', ''an'', ''copy'', ''book'', ''novel''] True) [] None 0
          normalized))"

definition withNumbers :: "string \<Rightarrow> string" where
  "withNumbers normalized =
     replace_g (m_words [''three''] False) ''3'' None 0
       (replace_g (m_words [''two''] False) ''2'' None 0
          (replace_g (m_words [''one''] False) ''1'' None 0 normalized))"

definition getTitleVariations :: "string \<Rightarrow> error + string list" where
  "getTitleVariations title =
     (let normalized = normalizeTitle title;
          variations = Set_add (Set_add [] normalized) title;
          lowerTitle = toLowerCase normalized
      in case get_property lowerTitle of
           Inherited \<Rightarrow> Inl TypeError
         | p \<Rightarrow>
            (let variations1 = (case p of Own ts \<Rightarrow> foldl Set_add variations ts | _ \<Rightarrow> variations);
                 variations2 =
                   (if withoutCommon normalized \<noteq> [] \<and> withoutCommon normalized \<noteq> normalized
                    then Set_add variations1 (withoutCommon normalized) else variations1);
                 variations3 =
                   (if withNumbers normalized \<noteq> normalized
                    then Set_add variations2 (withNumbers normalized) else variations2)
             in Inr (filter (\<lambda>v. length v > 0) variations3)))"

section \<open>phashService\<close>

text \<open>
  The perceptual hash lives in a WebAssembly module that is outside the sources, and the
  images and the catalogue are behind the network. They are the parameters of the model:
  an environment gives the API key, the answer of the catalogue to a request, whether the
  WebAssembly module loads, the bytes behind an image locator, and the three operations
  of the hash (its constructor, which fails on bytes it cannot decode, \<open>toHex\<close> and
  \<open>hammingDistance\<close>). The environment is fixed during one call of the pipeline.
\<close>

record book =
  title :: string
  authors :: "string list option"
  isbn13 :: "string option"
  isbn :: "string option"
  publisher :: string
  imageUrl :: "string option" \<comment> \<open>the field \<open>image\<close>\<close>
  date_published :: string

datatype response = No_response | Http_error nat | Http_ok "book list"

record 'h env =
  ISBNDB_API_KEY :: string
  fetch_books :: "string \<Rightarrow> nat \<Rightarrow> nat \<Rightarrow> response"
  wasm_loads :: bool
  fetch_image :: "string \<Rightarrow> nat list option"
  wasm_ImageHash :: "nat list \<Rightarrow> 'h option"
  wasm_toHex :: "'h \<Rightarrow> string"
  wasm_hammingDistance :: "'h \<Rightarrow> 'h \<Rightarrow> nat"

definition calculateHash :: "'h env \<Rightarrow> string \<Rightarrow> error + 'h" where
  "calculateHash env url =
     (if \<not> wasm_loads env then Inl WasmInitError
      else case fetch_image env url of
             None \<Rightarrow> Inl ImageFetchError
           | Some imageBytes \<Rightarrow>
               (case wasm_ImageHash env imageBytes of
                  None \<Rightarrow> Inl ImageDecodeError
                | Some hash \<Rightarrow> Inr hash))"

section \<open>isbndbService\<close>

definition searchBooks :: "'h env \<Rightarrow> string \<Rightarrow> nat \<Rightarrow> nat \<Rightarrow> error + book list" where
  "searchBooks env q page pageSize =
     (if ISBNDB_API_KEY env = [] then Inl ConfigError
      else case fetch_books env q page pageSize of
             No_response \<Rightarrow> Inl NetworkError
           | Http_error status \<Rightarrow> Inl (ApiError status)
           | Http_ok books \<Rightarrow> Inr books)"

definition has_cover :: "book \<Rightarrow> bool" where
  \<comment> \<open>\<open>book.image && book.image.trim() !== ''\<close>\<close>
  "has_cover b = (case imageUrl b of None \<Rightarrow> False | Some u \<Rightarrow> u \<noteq> [] \<and> trim u \<noteq> [])"

definition getBooksWithCovers :: "'h env \<Rightarrow> string \<Rightarrow> nat \<Rightarrow> error + book list" where
  "getBooksWithCovers env q maxResults =
     (case searchBooks env q 1 maxResults of
        Inl e \<Rightarrow> Inl e
      | Inr books \<Rightarrow> Inr (filter has_cover books))"

definition js_or :: "string option \<Rightarrow> string option \<Rightarrow> string option" where
  \<comment> \<open>\<open>a || b\<close> on values that are a string or undefined: the empty string is falsy\<close>
  "js_or a b = (case a of Some (c # cs) \<Rightarrow> a | _ \<Rightarrow> b)"

definition isbn_of :: "book \<Rightarrow> string option" where
  \<comment> \<open>\<open>book.isbn13 || book.isbn\<close>\<close>
  "isbn_of b = js_or (isbn13 b) (isbn b)"

text \<open>
  The state of the loops of \<open>searchBooksByTitle\<close> is the pair of \<open>allBooks\<close> and
  \<open>seenIsbns\<close>. \<open>add_book\<close> is the body of \<open>books.forEach\<close>; \<open>search_variations\<close> is
  the loop over the title variations, whose \<open>catch\<close> leaves the state as it is and goes
  on with the next variation.
\<close>

definition add_book :: "book list \<times> string option set \<Rightarrow> book \<Rightarrow> book list \<times> string option set" where
  "add_book st b =
     (case st of (allBooks, seenIsbns) \<Rightarrow>
        if has_cover b \<and> isbn_of b \<notin> seenIsbns
        then (allBooks @ [b], insert (isbn_of b) seenIsbns)
        else (allBooks, seenIsbns))"

fun search_variations ::
  "'h env \<Rightarrow> nat \<Rightarrow> book list \<times> string option set \<Rightarrow> string list \<Rightarrow> book list \<times> string option set" where
  "search_variations env n st [] = st"
| "search_variations env n st (variation # rest) =
     (case searchBooks env variation 1 n of
        Inr books \<Rightarrow> search_variations env n (foldl add_book st books) rest
      | Inl e \<Rightarrow> search_variations env n st rest)"

definition searchBooksByTitle :: "'h env \<Rightarrow> string \<Rightarrow> nat \<Rightarrow> error + book list" where
  "searchBooksByTitle env t maxResultsPerQuery =
     (case getTitleVariations t of
        Inl e \<Rightarrow> Inl e
      | Inr titleVariations \<Rightarrow>
          Inr (fst (search_variations env maxResultsPerQuery ([], {}) titleVariations)))"

text \<open>
  The candidates in the order in which the title search discovers them: the answers to
  the variations whose search succeeds, one after the other.
\<close>

definition discovered :: "'h env \<Rightarrow> nat \<Rightarrow> string list \<Rightarrow> book list" where
  "discovered env n variations =
     concat (map (\<lambda>v. case searchBooks env v 1 n of Inr books \<Rightarrow> books | Inl e \<Rightarrow> []) variations)"

datatype search_method = Title_based | Generic | Generic_fallback | None_found

record options =
  imageName :: string
  query :: string
  maxResults :: nat
  similarityThreshold :: rat
  topN :: int

record book_info =
  info_title :: string
  info_authors :: "string list"
  info_isbn :: "string option"
  info_publisher :: string
  info_image :: "string option"
  info_publishDate :: string

record scored_match =
  matched_book :: book_info \<comment> \<open>the field \<open>book\<close>\<close>
  similarity :: rat
  hashHex :: string
  hammingDistance :: nat
  matchedByTitle :: bool

record pipeline_result =
  targetHash :: string
  results :: "scored_match list"
  totalCompared :: nat
  searchMethod :: search_method
  searchQuery :: string

text \<open>
  Numbers. The Hamming distance is a natural number, the threshold and the similarity
  are rationals: for a distance that is an integer, every value up to and including the
  argument of \<open>Math.round\<close> is a dyadic rational that a double holds exactly, and the
  stored similarity is that integer divided by 100. \<open>topN\<close> is an integer, as
  \<open>slice\<close> truncates its arguments to integers.
\<close>

definition maxDistance :: nat where
  "maxDistance = 8 * 8"

definition raw_similarity :: "nat \<Rightarrow> rat" where
  \<comment> \<open>the local \<open>similarity\<close>: \<open>(1.0 - (hammingDistance / maxDistance)) * 100.0\<close>\<close>
  "raw_similarity d = (1 - of_nat d / of_nat maxDistance) * 100"

definition Math_round :: "rat \<Rightarrow> int" where
  \<comment> \<open>\<open>Math.round\<close> rounds to the nearest integer, a tie towards plus infinity\<close>
  "Math_round x = \<lfloor>x + 1 / 2\<rfloor>"

definition stored_similarity :: "nat \<Rightarrow> rat" where
  \<comment> \<open>the field \<open>similarity\<close>: \<open>Math.round(similarity * 100) / 100\<close>\<close>
  "stored_similarity d = of_int (Math_round (raw_similarity d * 100)) / 100"

definition locator :: "book \<Rightarrow> string" where
  \<comment> \<open>the argument \<open>book.image\<close> of \<open>calculateHash\<close>; \<open>fetch\<close> turns undefined into a string\<close>
  "locator b = (case imageUrl b of Some u \<Rightarrow> u | None \<Rightarrow> ''undefined'')"

definition compare_book ::
  "'h env \<Rightarrow> 'h \<Rightarrow> rat \<Rightarrow> search_method \<Rightarrow> book \<Rightarrow> scored_match option" where
  \<comment> \<open>the body of the comparison loop: the entry it pushes, if any\<close>
  "compare_book env target threshold method b =
     (case calculateHash env (locator b) of
        Inl e \<Rightarrow> None
      | Inr bookHash \<Rightarrow>
          (let d = wasm_hammingDistance env target bookHash in
           if raw_similarity d \<ge> threshold then
             Some \<lparr> matched_book =
                      \<lparr> info_title = title b,
                        info_authors = (case authors b of Some a \<Rightarrow> a | None \<Rightarrow> []),
                        info_isbn = isbn_of b,
                        info_publisher = publisher b,
                        info_image = imageUrl b,
                        info_publishDate = date_published b \<rparr>,
                    similarity = stored_similarity d,
                    hashHex = wasm_toHex env bookHash,
                    hammingDistance = d,
                    matchedByTitle = (method = Title_based) \<rparr>
           else None))"

fun compare_covers ::
  "'h env \<Rightarrow> 'h \<Rightarrow> rat \<Rightarrow> search_method \<Rightarrow> book list \<Rightarrow> scored_match list" where
  \<comment> \<open>the comparison loop; the call of \<open>onProgress\<close>, which does not touch the result, is left out\<close>
  "compare_covers env target threshold method [] = []"
| "compare_covers env target threshold method (b # books) =
     (case compare_book env target threshold method b of
        None \<Rightarrow> compare_covers env target threshold method books
      | Some c \<Rightarrow> c # compare_covers env target threshold method books)"

definition sort_descending :: "scored_match list \<Rightarrow> scored_match list" where
  \<comment> \<open>\<open>sort((a, b) => b.similarity - a.similarity)\<close>, which is stable\<close>
  "sort_descending cs = sort_key (\<lambda>c. - similarity c) cs"

definition slice0 :: "'a list \<Rightarrow> int \<Rightarrow> 'a list" where
  \<comment> \<open>\<open>xs.slice(0, n)\<close>: a negative \<open>n\<close> counts from the end\<close>
  "slice0 xs n = (if n < 0 then take (nat (int (length xs) + n)) xs else take (nat n) xs)"

definition title_search :: "'h env \<Rightarrow> options \<Rightarrow> book list \<times> search_method" where
  \<comment> \<open>step 1: \<open>books\<close> and \<open>searchMethod\<close> after the search by title\<close>
  "title_search env opts =
     (if imageName opts \<noteq> [] then
        (let extractedTitle = extractBookTitle (imageName opts) in
         if extractedTitle \<noteq> [] \<and> length extractedTitle > 2 then
           (case searchBooksByTitle env extractedTitle 20 of
              Inr books \<Rightarrow> (books, Title_based)
            | Inl e \<Rightarrow> ([], Generic_fallback))
         else ([], Generic))
      else ([], Generic))"

definition fallback_search ::
  "'h env \<Rightarrow> options \<Rightarrow> book list \<times> search_method \<Rightarrow> error + book list \<times> search_method" where
  \<comment> \<open>step 2: the generic search, when step 1 has left no books\<close>
  "fallback_search env opts st =
     (if fst st = [] then
        (case getBooksWithCovers env (query opts) (maxResults opts) of
           Inl e \<Rightarrow> Inl e
         | Inr books \<Rightarrow> Inr (books, if length books > 0 then Generic else None_found))
      else Inr st)"

definition findSimilarCovers :: "'h env \<Rightarrow> string \<Rightarrow> options \<Rightarrow> error + pipeline_result" where
  "findSimilarCovers env targetImageUrl opts =
     (case calculateHash env targetImageUrl of
        Inl e \<Rightarrow> Inl e
      | Inr target \<Rightarrow>
          (case fallback_search env opts (title_search env opts) of
             Inl e \<Rightarrow> Inl e
           | Inr (books, method) \<Rightarrow>
               if books = [] then
                 Inr \<lparr> targetHash = wasm_toHex env target,
                       results = [],
                       totalCompared = 0,
                       searchMethod = None_found,
                       searchQuery = (if imageName opts \<noteq> [] then imageName opts else query opts) \<rparr>
               else
                 Inr \<lparr> targetHash = wasm_toHex env target,
                       results =
                         slice0
                           (sort_descending
                              (compare_covers env target (similarityThreshold opts) method books))
                           (topN opts),
                       totalCompared = length books,
                       searchMethod = method,
                       searchQuery = (if imageName opts \<noteq> [] then imageName opts else query opts) \<rparr>))"

section \<open>A sample environment\<close>

text \<open>
  A small catalogue and a toy hash, used to run the pipeline on concrete inputs. The hash
  of an image is the single byte the image consists of, the distance of two hashes is
  their difference; the target image has hash 0, so the cover \<open>cover10\<close> is at distance
  10 from it. The locator \<open>corrupt\<close> leads to bytes that cannot be decoded, and an
  unknown locator cannot be fetched.
\<close>

definition sample_book :: "string \<Rightarrow> string option \<Rightarrow> string option \<Rightarrow> book" where
  "sample_book t i u =
     \<lparr> title = t, authors = None, isbn13 = i, isbn = None, publisher = ''Press'',
       imageUrl = u, date_published = ''2001'' \<rparr>"

definition sample_catalogue :: "string \<Rightarrow> nat \<Rightarrow> nat \<Rightarrow> response" where
  "sample_catalogue q page pageSize =
     (if q = ''fiction'' then
        Http_ok [sample_book ''F1'' (Some ''9780000000011'') (Some ''cover2''),
                 sample_book ''F2'' (Some ''9780000000012'') (Some ''cover40''),
                 sample_book ''F3'' (Some ''9780000000013'') (Some ''cover10'')]
      else if q = ''poetry'' then
        Http_ok [sample_book ''P1'' (Some ''9780000000021'') (Some ''cover3''),
                 sample_book ''P2'' (Some ''9780000000022'') (Some ''cover3'')]
      else if q = ''history'' then
        Http_ok [sample_book ''H1'' (Some ''9780000000031'') (Some ''cover2''),
                 sample_book ''H2'' (Some ''9780000000032'') (Some ''corrupt'')]
      else if q = ''emma'' then
        Http_ok [sample_book ''E1'' (Some ''9780000000041'') (Some [])]
      else if q = ''Emma'' then
        Http_ok [sample_book ''E2'' (Some ''9780000000041'') (Some ''cover2'')]
      else if q = ''ulysses'' then
        Http_ok [sample_book ''U1'' (Some ''9780000000051'') (Some ''cover2'')]
      else if q = ''Ulysses'' then
        Http_ok [sample_book ''U2'' (Some ''9780000000051'') (Some ''cover10''),
                 sample_book ''U3'' (Some ''9780000000052'') (Some ''cover40'')]
      else if q = ''dune'' then
        Http_ok [sample_book ''D1'' None (Some ''cover2''),
                 sample_book ''D2'' None (Some ''cover10'')]
      else if q = ''drama'' then Http_error 500
      else Http_error 404)"

definition sample_images :: "string \<Rightarrow> nat list option" where
  "sample_images u =
     (if u = ''target'' then Some [0]
      else if u = ''cover2'' then Some [2]
      else if u = ''cover3'' then Some [3]
      else if u = ''cover10'' then Some [10]
      else if u = ''cover40'' then Some [40]
      else if u = ''corrupt'' then Some []
      else None)"

definition sample_env :: "nat env" where
  "sample_env =
     \<lparr> ISBNDB_API_KEY = ''key'',
       fetch_books = sample_catalogue,
       wasm_loads = True,
       fetch_image = sample_images,
       wasm_ImageHash = (\<lambda>bytes. case bytes of [n] \<Rightarrow> Some n | _ \<Rightarrow> None),
       wasm_toHex = (\<lambda>h. ''00''),
       wasm_hammingDistance = (\<lambda>a b. if a \<le> b then b - a else a - b) \<rparr>"

definition sample_options :: "string \<Rightarrow> string \<Rightarrow> rat \<Rightarrow> int \<Rightarrow> options" where
  "sample_options name q threshold n =
     \<lparr> imageName = name, query = q, maxResults = 50, similarityThreshold = threshold, topN = n \<rparr>"

definition sample_match :: "book \<Rightarrow> rat \<Rightarrow> nat \<Rightarrow> bool \<Rightarrow> scored_match" where
  "sample_match b s d t =
     \<lparr> matched_book =
         \<lparr> info_title = title b, info_authors = [], info_isbn = isbn13 b,
           info_publisher = publisher b, info_image = imageUrl b,
           info_publishDate = date_published b \<rparr>,
       similarity = s, hashHex = ''00'', hammingDistance = d, matchedByTitle = t \<rparr>"

definition scenario_result :: pipeline_result where
  \<comment> \<open>distances 2, 40 and 10, threshold 70, at most 2 results\<close>
  "scenario_result =
     \<lparr> targetHash = ''00'',
       results =
         [sample_match (sample_book ''F1'' (Some ''9780000000011'') (Some ''cover2'')) (2422 / 25) 2 False,
          sample_match (sample_book ''F3'' (Some ''9780000000013'') (Some ''cover10'')) (4219 / 50) 10 False],
       totalCompared = 3,
       searchMethod = Generic,
       searchQuery = ''fiction'' \<rparr>"

definition title_result :: pipeline_result where
  \<comment> \<open>the image \<open>Ulysses.jpg\<close>, threshold 30\<close>
  "title_result =
     \<lparr> targetHash = ''00'',
       results =
         [sample_match (sample_book ''U1'' (Some ''9780000000051'') (Some ''cover2'')) (2422 / 25) 2 True,
          sample_match (sample_book ''U3'' (Some ''9780000000052'') (Some ''cover40'')) (75 / 2) 40 True],
       totalCompared = 2,
       searchMethod = Title_based,
       searchQuery = ''Ulysses.jpg'' \<rparr>"

section \<open>The similarity ranker\<close>

lemma compare_covers_mem:
  "c \<in> set (compare_covers env target threshold method books) \<Longrightarrow>
   \<exists>b \<in> set books. compare_book env target threshold method b = Some c"
  by (induction books) (auto split: option.splits)

lemma set_slice0: "set (slice0 xs n) \<subseteq> set xs"
  by (auto simp: slice0_def dest: in_set_takeD)

lemma set_sort_descending: "set (sort_descending cs) = set cs"
  by (simp add: sort_descending_def)

lemma fallback_search_empty:
  "fallback_search env opts st = Inr (books, method) \<Longrightarrow> books = [] \<Longrightarrow> method = None_found"
  by (auto simp: fallback_search_def split: if_splits sum.splits)

lemma findSimilarCovers_Inr:
  assumes "findSimilarCovers env url opts = Inr res"
  obtains target books where
    "calculateHash env url = Inr target"
    "fallback_search env opts (title_search env opts) = Inr (books, searchMethod res)"
    "results res =
       slice0 (sort_descending
         (compare_covers env target (similarityThreshold opts) (searchMethod res) books)) (topN opts)"
    "totalCompared res = length books"
proof -
  from assms obtain target where t: "calculateHash env url = Inr target"
    by (auto simp: findSimilarCovers_def split: sum.splits)
  from assms t obtain books m where
    f: "fallback_search env opts (title_search env opts) = Inr (books, m)"
    by (auto simp: findSimilarCovers_def split: sum.splits)
  show thesis
  proof (cases "books = []")
    case True
    with f have "m = None_found" by (simp add: fallback_search_empty)
    with assms t f True show thesis
      by (intro that[of target books]) (auto simp: findSimilarCovers_def slice0_def sort_descending_def)
  next
    case False
    with assms t f show thesis
      by (intro that[of target books]) (auto simp: findSimilarCovers_def)
  qed
qed

lemma result_entry:
  assumes "findSimilarCovers env url opts = Inr res" and "r \<in> set (results res)"
  obtains target b where
    "calculateHash env url = Inr target"
    "compare_book env target (similarityThreshold opts) (searchMethod res) b = Some r"
proof -
  from assms(1) obtain target books where
    t: "calculateHash env url = Inr target" and
    r: "results res =
       slice0 (sort_descending
         (compare_covers env target (similarityThreshold opts) (searchMethod res) books)) (topN opts)"
    by (rule findSimilarCovers_Inr)
  from assms(2) r have
    "r \<in> set (compare_covers env target (similarityThreshold opts) (searchMethod res) books)"
    using set_slice0 set_sort_descending by fastforce
  then obtain b where "compare_book env target (similarityThreshold opts) (searchMethod res) b = Some r"
    by (blast dest: compare_covers_mem)
  with t show thesis by (rule that)
qed

lemma compare_book_Some:
  assumes "compare_book env target threshold method b = Some r"
  obtains h where
    "calculateHash env (locator b) = Inr h"
    "hammingDistance r = wasm_hammingDistance env target h"
    "similarity r = stored_similarity (hammingDistance r)"
    "threshold \<le> raw_similarity (hammingDistance r)"
    "matchedByTitle r = (method = Title_based)"
    "info_image (matched_book r) = imageUrl b"
  using assms by (auto simp: compare_book_def Let_def split: sum.splits if_splits)

lemma stored_similarity_lower: "raw_similarity d - 1 / 200 < stored_similarity d"
proof -
  have "raw_similarity d * 100 + 1 / 2 < of_int \<lfloor>raw_similarity d * 100 + 1 / 2\<rfloor> + 1"
    by linarith
  then show ?thesis by (simp add: stored_similarity_def Math_round_def field_simps)
qed

lemma stored_similarity_upper: "stored_similarity d \<le> raw_similarity d + 1 / 200"
proof -
  have "of_int \<lfloor>raw_similarity d * 100 + 1 / 2\<rfloor> \<le> raw_similarity d * 100 + 1 / 2"
    by linarith
  then show ?thesis by (simp add: stored_similarity_def Math_round_def field_simps)
qed

lemma stored_similarity_hundredths: "stored_similarity d * 100 \<in> \<int>"
  by (simp add: stored_similarity_def)

lemma stored_similarity_ge:
  assumes "of_int k / 100 \<le> raw_similarity d"
  shows "of_int k / 100 \<le> stored_similarity d"
proof -
  from assms have "of_int k \<le> raw_similarity d * 100 + 1 / 2" by (simp add: field_simps)
  then have "k \<le> \<lfloor>raw_similarity d * 100 + 1 / 2\<rfloor>" by (simp add: le_floor_iff)
  then have "(of_int k :: rat) \<le> of_int \<lfloor>raw_similarity d * 100 + 1 / 2\<rfloor>" by simp
  then show ?thesis by (simp add: stored_similarity_def Math_round_def field_simps)
qed

lemma sorted_sort_descending:
  "sorted_wrt (\<lambda>a b. similarity b \<le> similarity a) (sort_descending cs)"
proof -
  have "sorted (map (\<lambda>c. - similarity c) (sort_descending cs))"
    by (simp add: sort_descending_def)
  then show ?thesis by (simp add: sorted_map)
qed

lemma sorted_slice0: "sorted_wrt P xs \<Longrightarrow> sorted_wrt P (slice0 xs n)"
  by (simp add: slice0_def)

lemma length_slice0: "0 \<le> n \<Longrightarrow> int (length (slice0 xs n)) \<le> n"
  by (simp add: slice0_def)

lemma scenario_run:
  "findSimilarCovers sample_env ''target'' (sample_options [] ''fiction'' 70 2) = Inr scenario_result"
  by code_simp

lemma title_run:
  "findSimilarCovers sample_env ''target'' (sample_options ''Ulysses.jpg'' ''fiction'' 30 10) =
   Inr title_result"
  by code_simp

text \<open>
  C1, as the code has it. The results of a call that returns are sorted by
  non-increasing stored similarity. When \<open>topN\<close> is not negative there are at most \<open>topN\<close>
  of them. The threshold is compared with the similarity before it is rounded: the
  unrounded similarity \<open>(1 - hammingDistance / 64) * 100\<close> of every entry is at least the
  threshold, and its stored similarity, which is rounded to two decimals, is above the
  threshold minus 0.005; it is at least the threshold when the threshold itself is a
  whole number of hundredths.
\<close>

theorem ranking_invariant:
  assumes "findSimilarCovers env url opts = Inr res"
  shows "sorted_wrt (\<lambda>a b. similarity b \<le> similarity a) (results res) \<and>
         (0 \<le> topN opts \<longrightarrow> int (length (results res)) \<le> topN opts) \<and>
         (\<forall>r \<in> set (results res).
            similarityThreshold opts \<le> (1 - of_nat (hammingDistance r) / 64) * 100 \<and>
            similarityThreshold opts - 1 / 200 < similarity r \<and>
            (similarityThreshold opts * 100 \<in> \<int> \<longrightarrow> similarityThreshold opts \<le> similarity r))"
proof (intro conjI ballI impI)
  from assms obtain target books where
    r: "results res =
       slice0 (sort_descending
         (compare_covers env target (similarityThreshold opts) (searchMethod res) books)) (topN opts)"
    by (rule findSimilarCovers_Inr)
  show "sorted_wrt (\<lambda>a b. similarity b \<le> similarity a) (results res)"
    unfolding r by (intro sorted_slice0 sorted_sort_descending)
  show "int (length (results res)) \<le> topN opts" if "0 \<le> topN opts"
    unfolding r using that by (rule length_slice0)
next
  fix r assume "r \<in> set (results res)"
  with assms obtain target b where
    "compare_book env target (similarityThreshold opts) (searchMethod res) b = Some r"
    by (rule result_entry)
  then have raw: "similarityThreshold opts \<le> raw_similarity (hammingDistance r)"
    and st: "similarity r = stored_similarity (hammingDistance r)"
    by (auto elim: compare_book_Some)
  from raw show "similarityThreshold opts \<le> (1 - of_nat (hammingDistance r) / 64) * 100"
    by (simp add: raw_similarity_def maxDistance_def)
  from raw stored_similarity_lower[of "hammingDistance r"]
  show "similarityThreshold opts - 1 / 200 < similarity r"
    unfolding st by linarith
  show "similarityThreshold opts \<le> similarity r" if "similarityThreshold opts * 100 \<in> \<int>"
  proof -
    from that obtain k :: int where "similarityThreshold opts * 100 = of_int k"
      by (rule Ints_cases)
    then have k: "similarityThreshold opts = of_int k / 100" by simp
    from raw show ?thesis unfolding st k by (rule stored_similarity_ge)
  qed
qed

theorem ranking_invariant_witness:
  "findSimilarCovers sample_env ''target'' (sample_options [] ''fiction'' 70 2) = Inr scenario_result \<and>
   0 \<le> topN (sample_options [] ''fiction'' 70 2) \<and>
   hd (results scenario_result) \<in> set (results scenario_result) \<and>
   similarityThreshold (sample_options [] ''fiction'' 70 2) * 100 \<in> \<int> \<and>
   sorted_wrt (\<lambda>a b. similarity b \<le> similarity a) (results scenario_result) \<and>
   int (length (results scenario_result)) \<le> topN (sample_options [] ''fiction'' 70 2) \<and>
   similarityThreshold (sample_options [] ''fiction'' 70 2)
     \<le> (1 - of_nat (hammingDistance (hd (results scenario_result))) / 64) * 100 \<and>
   similarityThreshold (sample_options [] ''fiction'' 70 2) - 1 / 200
     < similarity (hd (results scenario_result)) \<and>
   similarityThreshold (sample_options [] ''fiction'' 70 2) \<le> similarity (hd (results scenario_result))"
proof -
  have n: "0 \<le> topN (sample_options [] ''fiction'' 70 2)"
    by (simp add: sample_options_def)
  have m: "hd (results scenario_result) \<in> set (results scenario_result)"
    by (simp add: scenario_result_def)
  have t: "similarityThreshold (sample_options [] ''fiction'' 70 2) * 100 \<in> \<int>"
    by (simp add: sample_options_def)
  from ranking_invariant[OF scenario_run] scenario_run n m t show ?thesis
    by blast
qed

text \<open>
  C1 as stated fails. With the threshold 95.3125 and \<open>topN = -1\<close>, two candidates at
  distance 3 pass the threshold with the unrounded similarity 95.3125; the slice drops
  the last of them, and the one result that is returned has the stored similarity 95.31:
  below the threshold, in a list longer than \<open>topN\<close>.
\<close>

theorem ranking_invariant_counterexample:
  "(case findSimilarCovers sample_env ''target'' (sample_options [] ''poetry'' (953125 / 10000) (- 1)) of
      Inl e \<Rightarrow> False
    | Inr res \<Rightarrow>
        map similarity (results res) = [9531 / 100] \<and>
        similarity (hd (results res)) < similarityThreshold (sample_options [] ''poetry'' (953125 / 10000) (- 1)) \<and>
        topN (sample_options [] ''poetry'' (953125 / 10000) (- 1)) < int (length (results res)))"
  by code_simp

text \<open>
  C2. Every entry of the results stores the similarity \<open>(1 - d / 64) * 100\<close> rounded to
  two decimals, where \<open>d\<close> is the entry's Hamming distance: the stored value is a whole
  number of hundredths, at most 0.005 away from the exact value, a tie rounded upwards;
  and \<open>d\<close> is the distance between the hash of the target and the hash of the
  candidate's cover. The distances 0, 64 and 16 give 100, 0 and 75.
\<close>

theorem similarity_rounding:
  assumes "findSimilarCovers env url opts = Inr res" and "r \<in> set (results res)"
  shows "similarity r = stored_similarity (hammingDistance r) \<and>
         similarity r * 100 \<in> \<int> \<and>
         (1 - of_nat (hammingDistance r) / 64) * 100 - 1 / 200 < similarity r \<and>
         similarity r \<le> (1 - of_nat (hammingDistance r) / 64) * 100 + 1 / 200 \<and>
         (\<exists>target b h. calculateHash env url = Inr target \<and>
            calculateHash env (locator b) = Inr h \<and>
            info_image (matched_book r) = imageUrl b \<and>
            hammingDistance r = wasm_hammingDistance env target h) \<and>
         stored_similarity 0 = 100 \<and> stored_similarity 64 = 0 \<and> stored_similarity 16 = 75"
proof -
  from assms obtain target b where
    t: "calculateHash env url = Inr target" and
    c: "compare_book env target (similarityThreshold opts) (searchMethod res) b = Some r"
    by (rule result_entry)
  from c obtain h where
    h: "calculateHash env (locator b) = Inr h"
       "hammingDistance r = wasm_hammingDistance env target h"
       "info_image (matched_book r) = imageUrl b" and
    st: "similarity r = stored_similarity (hammingDistance r)"
    by (rule compare_book_Some)
  have raw: "(1 - of_nat (hammingDistance r) / 64) * 100 = raw_similarity (hammingDistance r)"
    by (simp add: raw_similarity_def maxDistance_def)
  have "stored_similarity 0 = 100 \<and> stored_similarity 64 = 0 \<and> stored_similarity 16 = 75"
    by code_simp
  moreover have "\<exists>target b h. calculateHash env url = Inr target \<and>
            calculateHash env (locator b) = Inr h \<and>
            info_image (matched_book r) = imageUrl b \<and>
            hammingDistance r = wasm_hammingDistance env target h"
    using t h by blast
  ultimately show ?thesis
    unfolding raw st
    using stored_similarity_lower[of "hammingDistance r"]
      stored_similarity_upper[of "hammingDistance r"]
      stored_similarity_hundredths[of "hammingDistance r"]
    by simp
qed

theorem similarity_rounding_witness:
  "findSimilarCovers sample_env ''target'' (sample_options [] ''fiction'' 70 2) = Inr scenario_result \<and>
   last (results scenario_result) \<in> set (results scenario_result) \<and>
   hammingDistance (last (results scenario_result)) = 10 \<and>
   similarity (last (results scenario_result)) = 4219 / 50 \<and>
   similarity (last (results scenario_result)) =
     stored_similarity (hammingDistance (last (results scenario_result)))"
proof -
  have m: "last (results scenario_result) \<in> set (results scenario_result)"
    by (simp add: scenario_result_def)
  have d: "hammingDistance (last (results scenario_result)) = 10"
    "similarity (last (results scenario_result)) = 4219 / 50"
    by (simp_all add: scenario_result_def sample_match_def)
  from similarity_rounding[OF scenario_run m] scenario_run m d show ?thesis
    by blast
qed

text \<open>
  C10. All entries of the results carry the same \<open>matchedByTitle\<close>, and the flag is set
  exactly when the method tag of the call is \<open>title-based\<close>.
\<close>

theorem matchedByTitle_uniform:
  assumes "findSimilarCovers env url opts = Inr res"
    and "r \<in> set (results res)" and "r' \<in> set (results res)"
  shows "matchedByTitle r = matchedByTitle r' \<and>
         (matchedByTitle r \<longleftrightarrow> searchMethod res = Title_based)"
proof -
  have "matchedByTitle x \<longleftrightarrow> searchMethod res = Title_based" if "x \<in> set (results res)" for x
  proof -
    from assms(1) that obtain target b where
      "compare_book env target (similarityThreshold opts) (searchMethod res) b = Some x"
      by (rule result_entry)
    then show ?thesis by (auto elim: compare_book_Some)
  qed
  with assms(2,3) show ?thesis by blast
qed

theorem matchedByTitle_uniform_witness:
  "findSimilarCovers sample_env ''target'' (sample_options ''Ulysses.jpg'' ''fiction'' 30 10) =
     Inr title_result \<and>
   hd (results title_result) \<in> set (results title_result) \<and>
   last (results title_result) \<in> set (results title_result) \<and>
   matchedByTitle (hd (results title_result)) = matchedByTitle (last (results title_result)) \<and>
   (matchedByTitle (hd (results title_result)) \<longleftrightarrow> searchMethod title_result = Title_based)"
proof -
  have m: "hd (results title_result) \<in> set (results title_result)"
    "last (results title_result) \<in> set (results title_result)"
    by (simp_all add: title_result_def)
  from matchedByTitle_uniform[OF title_run m] title_run m show ?thesis
    by blast
qed

text \<open>
  C8 fails on the code: \<open>totalCompared\<close> is the number of candidates handed to the
  comparison loop, whether or not their covers could be hashed. Of the two candidates of
  the query \<open>history\<close> the second has a cover that cannot be decoded, so one candidate
  is compared, and \<open>totalCompared\<close> is 2.
\<close>

theorem totalCompared_counts_failures:
  "map_sum id totalCompared
     (findSimilarCovers sample_env ''target'' (sample_options [] ''history'' 70 10)) = Inr 2 \<and>
   getBooksWithCovers sample_env ''history'' 50 =
     Inr [sample_book ''H1'' (Some ''9780000000031'') (Some ''cover2''),
          sample_book ''H2'' (Some ''9780000000032'') (Some ''corrupt'')] \<and>
   calculateHash sample_env ''cover2'' = Inr 2 \<and>
   calculateHash sample_env ''corrupt'' = Inl ImageDecodeError"
  by code_simp

text \<open>
  C9. The extension, the separators and the copy suffix of the file name are removed,
  and the white space that is left is collapsed.
\<close>

theorem extractBookTitle_example:
  "extractBookTitle ''My_Book - copy (2).jpg'' = ''My Book''"
  by code_simp

section \<open>Errors of the pipeline\<close>

lemma compare_book_failed:
  "isl (calculateHash env (locator b)) \<Longrightarrow> compare_book env target threshold m b = None"
  by (auto simp: compare_book_def split: sum.splits)

lemma compare_covers_skip:
  "compare_covers env target threshold m
     (filter (\<lambda>b. \<not> isl (calculateHash env (locator b))) books) =
   compare_covers env target threshold m books"
  by (induction books) (auto simp: compare_book_failed split: option.splits)

lemma findSimilarCovers_Inl:
  assumes "findSimilarCovers env url opts = Inl e"
  shows "calculateHash env url = Inl e \<or>
         (fst (title_search env opts) = [] \<and>
          searchBooks env (query opts) 1 (maxResults opts) = Inl e)"
proof (cases "calculateHash env url")
  case (Inl e')
  with assms show ?thesis by (simp add: findSimilarCovers_def)
next
  case (Inr target)
  with assms have "fallback_search env opts (title_search env opts) = Inl e"
    by (auto simp: findSimilarCovers_def split: sum.splits prod.splits if_splits)
  then show ?thesis
    by (auto simp: fallback_search_def getBooksWithCovers_def split: if_splits sum.splits)
qed

lemma searchBooks_Inl:
  "searchBooks env q page pageSize = Inl e \<Longrightarrow>
   (e = ConfigError \<and> ISBNDB_API_KEY env = []) \<or> e = NetworkError \<or> (\<exists>status. e = ApiError status)"
  by (auto simp: searchBooks_def split: if_splits response.splits)

lemma findSimilarCovers_returns:
  assumes "calculateHash env url = Inr target"
    and "fallback_search env opts (title_search env opts) = Inr (books, m)"
  shows "\<exists>res. findSimilarCovers env url opts = Inr res \<and>
           results res =
             slice0 (sort_descending (compare_covers env target (similarityThreshold opts) m books))
               (topN opts)"
  using assms by (auto simp: findSimilarCovers_def slice0_def sort_descending_def)

text \<open>
  C3, as the code has it. A call raises only when the hash of the target cannot be
  computed, or when the generic search fails, which runs when the search by title has
  left no candidates: the API key is missing, the catalogue gives no response, or its
  response is not ok. When neither happens the call returns, and its results are those
  computed from the candidates whose covers could be fetched and hashed.
\<close>

theorem pipeline_errors:
  "(findSimilarCovers env url opts = Inl e \<longrightarrow>
      calculateHash env url = Inl e \<or>
      (fst (title_search env opts) = [] \<and>
       searchBooks env (query opts) 1 (maxResults opts) = Inl e \<and>
       ((e = ConfigError \<and> ISBNDB_API_KEY env = []) \<or> e = NetworkError \<or>
        (\<exists>status. e = ApiError status)))) \<and>
   (calculateHash env url = Inr target \<and>
    fallback_search env opts (title_search env opts) = Inr (books, m) \<longrightarrow>
      (\<exists>res. findSimilarCovers env url opts = Inr res \<and>
         results res =
           slice0 (sort_descending (compare_covers env target (similarityThreshold opts) m
             (filter (\<lambda>b. \<not> isl (calculateHash env (locator b))) books))) (topN opts)))"
proof (intro conjI impI)
  assume "findSimilarCovers env url opts = Inl e"
  then have "calculateHash env url = Inl e \<or>
         (fst (title_search env opts) = [] \<and>
          searchBooks env (query opts) 1 (maxResults opts) = Inl e)"
    by (rule findSimilarCovers_Inl)
  then show "calculateHash env url = Inl e \<or>
      (fst (title_search env opts) = [] \<and>
       searchBooks env (query opts) 1 (maxResults opts) = Inl e \<and>
       ((e = ConfigError \<and> ISBNDB_API_KEY env = []) \<or> e = NetworkError \<or>
        (\<exists>status. e = ApiError status)))"
    using searchBooks_Inl[of env "query opts" 1 "maxResults opts" e] by blast
next
  assume "calculateHash env url = Inr target \<and>
    fallback_search env opts (title_search env opts) = Inr (books, m)"
  then show "\<exists>res. findSimilarCovers env url opts = Inr res \<and>
         results res =
           slice0 (sort_descending (compare_covers env target (similarityThreshold opts) m
             (filter (\<lambda>b. \<not> isl (calculateHash env (locator b))) books))) (topN opts)"
    unfolding compare_covers_skip by (blast dest: findSimilarCovers_returns)
qed

theorem pipeline_errors_witness:
  "findSimilarCovers sample_env ''missing'' (sample_options [] ''fiction'' 70 2) = Inl ImageFetchError \<and>
   calculateHash sample_env ''missing'' = Inl ImageFetchError \<and>
   calculateHash sample_env ''target'' = Inr 0 \<and>
   fallback_search sample_env (sample_options [] ''history'' 70 10)
       (title_search sample_env (sample_options [] ''history'' 70 10)) =
     Inr ([sample_book ''H1'' (Some ''9780000000031'') (Some ''cover2''),
           sample_book ''H2'' (Some ''9780000000032'') (Some ''corrupt'')], Generic) \<and>
   (\<exists>res. findSimilarCovers sample_env ''target'' (sample_options [] ''history'' 70 10) = Inr res \<and>
      results res =
        slice0 (sort_descending
          (compare_covers sample_env 0 (similarityThreshold (sample_options [] ''history'' 70 10)) Generic
            [sample_book ''H1'' (Some ''9780000000031'') (Some ''cover2'')]))
          (topN (sample_options [] ''history'' 70 10)))"
proof -
  have e: "findSimilarCovers sample_env ''missing'' (sample_options [] ''fiction'' 70 2) =
      Inl ImageFetchError"
    by code_simp
  have t: "calculateHash sample_env ''target'' = Inr 0"
    by code_simp
  have f: "fallback_search sample_env (sample_options [] ''history'' 70 10)
       (title_search sample_env (sample_options [] ''history'' 70 10)) =
     Inr ([sample_book ''H1'' (Some ''9780000000031'') (Some ''cover2''),
           sample_book ''H2'' (Some ''9780000000032'') (Some ''corrupt'')], Generic)"
    by code_simp
  have k: "filter (\<lambda>b. \<not> isl (calculateHash sample_env (locator b)))
       [sample_book ''H1'' (Some ''9780000000031'') (Some ''cover2''),
        sample_book ''H2'' (Some ''9780000000032'') (Some ''corrupt'')] =
     [sample_book ''H1'' (Some ''9780000000031'') (Some ''cover2'')]"
    by code_simp
  from pipeline_errors[of sample_env "''missing''" "sample_options [] ''fiction'' 70 2"
      ImageFetchError] e
  have 1: "calculateHash sample_env ''missing'' = Inl ImageFetchError"
    by auto
  from pipeline_errors[of sample_env "''target''" "sample_options [] ''history'' 70 10" _ 0
      "[sample_book ''H1'' (Some ''9780000000031'') (Some ''cover2''),
        sample_book ''H2'' (Some ''9780000000032'') (Some ''corrupt'')]" Generic] t f
  have 2: "\<exists>res. findSimilarCovers sample_env ''target'' (sample_options [] ''history'' 70 10) = Inr res \<and>
      results res =
        slice0 (sort_descending
          (compare_covers sample_env 0 (similarityThreshold (sample_options [] ''history'' 70 10)) Generic
            [sample_book ''H1'' (Some ''9780000000031'') (Some ''cover2'')]))
          (topN (sample_options [] ''history'' 70 10))"
    unfolding k by blast
  from e 1 t f 2 show ?thesis by blast
qed

text \<open>
  C3 as stated fails: the API key is configured and the hash of the target is computed,
  and the call still raises, because the catalogue answers the generic search with the
  status 500.
\<close>

theorem pipeline_errors_counterexample:
  "ISBNDB_API_KEY sample_env = ''key'' \<and>
   calculateHash sample_env ''target'' = Inr 0 \<and>
   findSimilarCovers sample_env ''target'' (sample_options [] ''drama'' 70 10) = Inl (ApiError 500)"
  by code_simp

section \<open>The method tag\<close>

lemma title_search_empty:
  assumes "imageName opts = [] \<or> length (extractBookTitle (imageName opts)) \<le> 2 \<or>
     isl (searchBooksByTitle env (extractBookTitle (imageName opts)) 20) \<or>
     searchBooksByTitle env (extractBookTitle (imageName opts)) 20 = Inr []"
  shows "fst (title_search env opts) = []"
  using assms by (auto simp: title_search_def Let_def split: sum.splits)

lemma fallback_search_tag:
  "fallback_search env opts st = Inr (books, m) \<Longrightarrow> fst st = [] \<Longrightarrow> m = Generic \<or> m = None_found"
  by (auto simp: fallback_search_def split: sum.splits if_splits)

text \<open>
  C5. When the search by title is skipped (no image name, or an extracted title of at
  most two characters), fails, or yields no candidate with a cover, the method tag of a
  call that returns is not \<open>title-based\<close>: it is \<open>generic\<close>, \<open>generic-fallback\<close> or
  \<open>none\<close>.
\<close>

theorem fallback_method_tag:
  assumes "findSimilarCovers env url opts = Inr res"
    and "imageName opts = [] \<or> length (extractBookTitle (imageName opts)) \<le> 2 \<or>
         isl (searchBooksByTitle env (extractBookTitle (imageName opts)) 20) \<or>
         searchBooksByTitle env (extractBookTitle (imageName opts)) 20 = Inr []"
  shows "searchMethod res \<noteq> Title_based \<and>
         (searchMethod res = Generic \<or> searchMethod res = Generic_fallback \<or>
          searchMethod res = None_found)"
proof -
  from assms(1) obtain books where
    "fallback_search env opts (title_search env opts) = Inr (books, searchMethod res)"
    by (rule findSimilarCovers_Inr)
  moreover from assms(2) have "fst (title_search env opts) = []"
    by (rule title_search_empty)
  ultimately have "searchMethod res = Generic \<or> searchMethod res = None_found"
    by (rule fallback_search_tag)
  then show ?thesis by auto
qed

theorem fallback_method_tag_witness:
  "findSimilarCovers sample_env ''target'' (sample_options ''constructor.png'' ''fiction'' 70 2) =
     Inr (scenario_result\<lparr>searchQuery := ''constructor.png''\<rparr>) \<and>
   isl (searchBooksByTitle sample_env
          (extractBookTitle (imageName (sample_options ''constructor.png'' ''fiction'' 70 2))) 20) \<and>
   searchMethod (scenario_result\<lparr>searchQuery := ''constructor.png''\<rparr>) \<noteq> Title_based \<and>
   (searchMethod (scenario_result\<lparr>searchQuery := ''constructor.png''\<rparr>) = Generic \<or>
    searchMethod (scenario_result\<lparr>searchQuery := ''constructor.png''\<rparr>) = Generic_fallback \<or>
    searchMethod (scenario_result\<lparr>searchQuery := ''constructor.png''\<rparr>) = None_found)"
proof -
  have r: "findSimilarCovers sample_env ''target'' (sample_options ''constructor.png'' ''fiction'' 70 2) =
     Inr (scenario_result\<lparr>searchQuery := ''constructor.png''\<rparr>)"
    by code_simp
  have f: "isl (searchBooksByTitle sample_env
          (extractBookTitle (imageName (sample_options ''constructor.png'' ''fiction'' 70 2))) 20)"
    by code_simp
  from fallback_method_tag[OF r] f r show ?thesis by blast
qed

section \<open>Deduplication in the search by title\<close>

lemma search_variations_foldl:
  "search_variations env n st variations = foldl add_book st (discovered env n variations)"
  by (induction variations arbitrary: st) (auto simp: discovered_def split: sum.splits)

lemma add_book_step:
  "add_book (allBooks, seenIsbns) b =
     (if has_cover b \<and> isbn_of b \<notin> seenIsbns
      then (allBooks @ [b], insert (isbn_of b) seenIsbns) else (allBooks, seenIsbns))"
  by (simp add: add_book_def)

lemma add_book_seen:
  "snd st = isbn_of ` set (fst st) \<Longrightarrow> snd (add_book st b) = isbn_of ` set (fst (add_book st b))"
  by (cases st) (auto simp: add_book_step)

lemma foldl_add_book_seen:
  "snd (foldl add_book ([], {}) xs) = isbn_of ` set (fst (foldl add_book ([], {}) xs))"
  by (induction xs rule: rev_induct) (simp_all add: add_book_seen)

lemma filter_eq_Nil_key:
  "filter (\<lambda>x. isbn_of x = k) ys = [] \<longleftrightarrow> k \<notin> isbn_of ` set ys"
  by (auto simp: filter_empty_conv)

lemma foldl_add_book_first:
  "filter (\<lambda>x. isbn_of x = k) (fst (foldl add_book ([], {}) xs)) =
   take 1 (filter (\<lambda>x. has_cover x \<and> isbn_of x = k) xs)"
proof (induction xs rule: rev_induct)
  case Nil
  show ?case by simp
next
  case (snoc x xs)
  let ?P = "\<lambda>x. has_cover x \<and> isbn_of x = k"
  obtain allBooks seenIsbns where st: "foldl add_book ([], {}) xs = (allBooks, seenIsbns)"
    by (cases "foldl add_book ([], {}) xs")
  with foldl_add_book_seen[of xs] have seen: "seenIsbns = isbn_of ` set allBooks" by simp
  from snoc st have IH: "filter (\<lambda>x. isbn_of x = k) allBooks = take 1 (filter ?P xs)"
    by simp
  show ?case
  proof (cases "?P x")
    case False
    then have "filter ?P (xs @ [x]) = filter ?P xs" by simp
    moreover from False st
    have "filter (\<lambda>x. isbn_of x = k) (fst (foldl add_book ([], {}) (xs @ [x]))) =
        filter (\<lambda>x. isbn_of x = k) allBooks"
      by (auto simp: add_book_step)
    ultimately show ?thesis using IH by (simp only:)
  next
    case hit: True
    show ?thesis
    proof (cases "k \<in> seenIsbns")
      case True
      with seen IH have "filter ?P xs \<noteq> []"
        using filter_eq_Nil_key[of k allBooks] by auto
      then have "take 1 (filter ?P xs @ [x]) = take 1 (filter ?P xs)"
        by (cases "filter ?P xs") simp_all
      with hit have "take 1 (filter ?P (xs @ [x])) = take 1 (filter ?P xs)"
        by simp
      moreover from hit True st
      have "filter (\<lambda>x. isbn_of x = k) (fst (foldl add_book ([], {}) (xs @ [x]))) =
          filter (\<lambda>x. isbn_of x = k) allBooks"
        by (simp add: add_book_step)
      ultimately show ?thesis using IH by (simp only:)
    next
      case False
      with seen have none: "filter (\<lambda>x. isbn_of x = k) allBooks = []"
        using filter_eq_Nil_key[of k allBooks] by simp
      with IH have "filter ?P xs = []"
        by (cases "filter ?P xs") simp_all
      with hit have "take 1 (filter ?P (xs @ [x])) = [x]"
        by simp
      moreover from hit False st none
      have "filter (\<lambda>x. isbn_of x = k) (fst (foldl add_book ([], {}) (xs @ [x]))) = [x]"
        by (simp add: add_book_step)
      ultimately show ?thesis by (simp only:)
    qed
  qed
qed

lemma foldl_add_book_subseq: "subseq (fst (foldl add_book ([], {}) xs)) xs"
proof (induction xs rule: rev_induct)
  case Nil
  show ?case by simp
next
  case (snoc x xs)
  obtain allBooks seenIsbns where st: "foldl add_book ([], {}) xs = (allBooks, seenIsbns)"
    by (cases "foldl add_book ([], {}) xs")
  with snoc have "subseq allBooks xs" by simp
  then have "subseq (allBooks @ [x]) (xs @ [x])" and "subseq allBooks (xs @ [x])"
    by (simp, rule list_emb_prefix)
  with st show ?case by (simp add: add_book_step)
qed

text \<open>The identifiers of the accumulated candidates are pairwise different.\<close>

lemma foldl_add_book_distinct: "distinct (map isbn_of (fst (foldl add_book ([], {}) xs)))"
proof (induction xs rule: rev_induct)
  case Nil
  show ?case by simp
next
  case (snoc x xs)
  obtain allBooks seenIsbns where st: "foldl add_book ([], {}) xs = (allBooks, seenIsbns)"
    by (cases "foldl add_book ([], {}) xs")
  with foldl_add_book_seen[of xs] have seen: "seenIsbns = isbn_of ` set allBooks" by simp
  from snoc st seen show ?case by (auto simp: add_book_step)
qed

lemma find_hd_filter: "filter P xs \<noteq> [] \<Longrightarrow> find P xs = Some (hd (filter P xs))"
  by (induction xs) auto

text \<open>
  C4, as the code has it. For every identifier that some discovered candidate with a
  usable cover carries, the list of the search by title holds exactly one candidate with
  that identifier: the first candidate with a usable cover and that identifier, in the
  order of discovery. The list follows the order of discovery. Candidates without a
  usable cover are passed over before their identifier is looked at.
\<close>

theorem searchBooksByTitle_first_seen:
  assumes "getTitleVariations t = Inr variations"
    and "b \<in> set (discovered env n variations)" and "has_cover b" and "isbn_of b \<noteq> None"
  shows "\<exists>out first.
           searchBooksByTitle env t n = Inr out \<and>
           find (\<lambda>x. has_cover x \<and> isbn_of x = isbn_of b) (discovered env n variations) = Some first \<and>
           filter (\<lambda>x. isbn_of x = isbn_of b) out = [first] \<and>
           subseq out (discovered env n variations)"
proof -
  let ?xs = "discovered env n variations"
  let ?out = "fst (foldl add_book ([], {}) ?xs)"
  let ?P = "\<lambda>x. has_cover x \<and> isbn_of x = isbn_of b"
  from assms(1) have out: "searchBooksByTitle env t n = Inr ?out"
    by (simp add: searchBooksByTitle_def search_variations_foldl)
  from assms(2,3) have ne: "filter ?P ?xs \<noteq> []"
    by (auto simp: filter_empty_conv)
  then have f: "find ?P ?xs = Some (hd (filter ?P ?xs))"
    by (rule find_hd_filter)
  from ne have "take 1 (filter ?P ?xs) = [hd (filter ?P ?xs)]"
    by (cases "filter ?P ?xs") simp_all
  then have "filter (\<lambda>x. isbn_of x = isbn_of b) ?out = [hd (filter ?P ?xs)]"
    by (simp add: foldl_add_book_first)
  with out f foldl_add_book_subseq[of ?xs]
  show ?thesis by blast
qed

theorem searchBooksByTitle_first_seen_witness:
  "getTitleVariations ''Ulysses'' = Inr [''ulysses'', ''Ulysses''] \<and>
   sample_book ''U2'' (Some ''9780000000051'') (Some ''cover10'')
     \<in> set (discovered sample_env 20 [''ulysses'', ''Ulysses'']) \<and>
   has_cover (sample_book ''U2'' (Some ''9780000000051'') (Some ''cover10'')) \<and>
   isbn_of (sample_book ''U2'' (Some ''9780000000051'') (Some ''cover10'')) \<noteq> None \<and>
   find (\<lambda>x. has_cover x \<and>
           isbn_of x = isbn_of (sample_book ''U2'' (Some ''9780000000051'') (Some ''cover10'')))
     (discovered sample_env 20 [''ulysses'', ''Ulysses'']) =
     Some (sample_book ''U1'' (Some ''9780000000051'') (Some ''cover2'')) \<and>
   (\<exists>out. searchBooksByTitle sample_env ''Ulysses'' 20 = Inr out \<and>
      filter (\<lambda>x. isbn_of x = isbn_of (sample_book ''U2'' (Some ''9780000000051'') (Some ''cover10''))) out =
        [sample_book ''U1'' (Some ''9780000000051'') (Some ''cover2'')])"
proof -
  have v: "getTitleVariations ''Ulysses'' = Inr [''ulysses'', ''Ulysses'']"
    by code_simp
  have m: "sample_book ''U2'' (Some ''9780000000051'') (Some ''cover10'')
     \<in> set (discovered sample_env 20 [''ulysses'', ''Ulysses''])"
    by code_simp
  have c: "has_cover (sample_book ''U2'' (Some ''9780000000051'') (Some ''cover10''))"
    by code_simp
  have i: "isbn_of (sample_book ''U2'' (Some ''9780000000051'') (Some ''cover10'')) \<noteq> None"
    by code_simp
  have f: "find (\<lambda>x. has_cover x \<and>
           isbn_of x = isbn_of (sample_book ''U2'' (Some ''9780000000051'') (Some ''cover10'')))
     (discovered sample_env 20 [''ulysses'', ''Ulysses'']) =
     Some (sample_book ''U1'' (Some ''9780000000051'') (Some ''cover2''))"
    by code_simp
  from searchBooksByTitle_first_seen[OF v m c i] f
  have "\<exists>out. searchBooksByTitle sample_env ''Ulysses'' 20 = Inr out \<and>
      filter (\<lambda>x. isbn_of x = isbn_of (sample_book ''U2'' (Some ''9780000000051'') (Some ''cover10''))) out =
        [sample_book ''U1'' (Some ''9780000000051'') (Some ''cover2'')]"
    by auto
  with v m c i f show ?thesis by blast
qed

text \<open>
  C4 as stated fails: the variation \<open>emma\<close> discovers a candidate whose cover locator
  is empty, the variation \<open>Emma\<close> then discovers a candidate with the same 13-digit
  ISBN and a cover. The list holds the second of them, not the one discovered first.
\<close>

theorem searchBooksByTitle_first_seen_counterexample:
  "getTitleVariations ''Emma'' = Inr [''emma'', ''Emma''] \<and>
   searchBooks sample_env ''emma'' 1 20 = Inr [sample_book ''E1'' (Some ''9780000000041'') (Some [])] \<and>
   searchBooks sample_env ''Emma'' 1 20 =
     Inr [sample_book ''E2'' (Some ''9780000000041'') (Some ''cover2'')] \<and>
   isbn_of (sample_book ''E1'' (Some ''9780000000041'') (Some [])) =
     isbn_of (sample_book ''E2'' (Some ''9780000000041'') (Some ''cover2'')) \<and>
   searchBooksByTitle sample_env ''Emma'' 20 =
     Inr [sample_book ''E2'' (Some ''9780000000041'') (Some ''cover2'')]"
  by code_simp

text \<open>
  C7 fails on the code: a candidate without an identifier has the key \<open>undefined\<close>, and
  the first such candidate puts that key into \<open>seenIsbns\<close>. The catalogue answers the
  variation \<open>dune\<close> with two candidates that have covers and no identifier; the second
  one is dropped.
\<close>

theorem searchBooksByTitle_drops_unidentified:
  "getTitleVariations ''dune'' = Inr [''dune''] \<and>
   searchBooks sample_env ''dune'' 1 20 =
     Inr [sample_book ''D1'' None (Some ''cover2''), sample_book ''D2'' None (Some ''cover10'')] \<and>
   has_cover (sample_book ''D2'' None (Some ''cover10'')) \<and>
   isbn_of (sample_book ''D2'' None (Some ''cover10'')) = None \<and>
   searchBooksByTitle sample_env ''dune'' 20 = Inr [sample_book ''D1'' None (Some ''cover2'')]"
  by code_simp

section \<open>Title variations\<close>

lemma set_Set_add: "set (Set_add vs v) = insert v (set vs)"
  by (auto simp: Set_add_def)

lemma distinct_Set_add: "distinct vs \<Longrightarrow> distinct (Set_add vs v)"
  by (simp add: Set_add_def)

lemma set_foldl_Set_add: "set (foldl Set_add vs ts) = set vs \<union> set ts"
  by (induction ts arbitrary: vs) (auto simp: set_Set_add)

lemma distinct_foldl_Set_add: "distinct vs \<Longrightarrow> distinct (foldl Set_add vs ts)"
  by (induction ts arbitrary: vs) (simp_all add: distinct_Set_add)

lemma normalizeTitle_Nil: "normalizeTitle [] = []"
  by code_simp

lemma getTitleVariations_Inr:
  assumes "get_property (toLowerCase (normalizeTitle t)) \<noteq> Inherited"
  obtains variations where
    "getTitleVariations t = Inr (filter (\<lambda>v. length v > 0) variations)"
    "distinct variations" "normalizeTitle t \<in> set variations" "t \<in> set variations"
proof -
  let ?n = "normalizeTitle t"
  let ?v0 = "Set_add (Set_add [] ?n) t"
  let ?v1 = "case get_property (toLowerCase ?n) of Own ts \<Rightarrow> foldl Set_add ?v0 ts | _ \<Rightarrow> ?v0"
  let ?v2 = "if withoutCommon ?n \<noteq> [] \<and> withoutCommon ?n \<noteq> ?n
             then Set_add ?v1 (withoutCommon ?n) else ?v1"
  let ?v3 = "if withNumbers ?n \<noteq> ?n then Set_add ?v2 (withNumbers ?n) else ?v2"
  have d0: "distinct ?v0" and s0: "?n \<in> set ?v0" "t \<in> set ?v0"
    by (simp_all add: distinct_Set_add set_Set_add)
  have d1: "distinct ?v1" and s1: "?n \<in> set ?v1" "t \<in> set ?v1"
    using d0 s0 by (simp_all add: distinct_foldl_Set_add set_foldl_Set_add split: property.splits)
  have d2: "distinct ?v2" and s2: "?n \<in> set ?v2" "t \<in> set ?v2"
    using d1 s1 by (simp_all add: distinct_Set_add set_Set_add)
  have d3: "distinct ?v3" and s3: "?n \<in> set ?v3" "t \<in> set ?v3"
    using d2 s2 by (simp_all add: distinct_Set_add set_Set_add)
  from assms have "getTitleVariations t = Inr (filter (\<lambda>v. length v > 0) ?v3)"
    by (simp add: getTitleVariations_def Let_def split: property.splits)
  then show thesis using d3 s3 by (rule that)
qed

lemma two_members: "distinct vs \<Longrightarrow> a \<in> set vs \<Longrightarrow> b \<in> set vs \<Longrightarrow> a \<noteq> b \<Longrightarrow> 2 \<le> length vs"
proof -
  assume d: "distinct vs" and m: "a \<in> set vs" "b \<in> set vs" "a \<noteq> b"
  then have "card {a, b} \<le> card (set vs)" by (intro card_mono) auto
  with d m show ?thesis by (simp add: distinct_card)
qed

text \<open>
  C6, as the code has it. Empty strings are filtered out of the array that
  \<open>getTitleVariations\<close> returns. For a title whose normalized form is not one of the
  names that the table of translations inherits, the function returns an array without
  duplicates that holds the original title when that is not empty; when the normalized
  form is not empty, the array holds both the normalized form and the original, is not
  empty, and has at least two members when the two differ.
\<close>

theorem getTitleVariations_members:
  assumes "get_property (toLowerCase (normalizeTitle t)) \<noteq> Inherited"
  shows "\<exists>vs. getTitleVariations t = Inr vs \<and> distinct vs \<and> [] \<notin> set vs \<and>
           (t \<noteq> [] \<longrightarrow> t \<in> set vs) \<and>
           (normalizeTitle t \<noteq> [] \<longrightarrow>
              normalizeTitle t \<in> set vs \<and> t \<in> set vs \<and> vs \<noteq> [] \<and>
              (t \<noteq> normalizeTitle t \<longrightarrow> 2 \<le> length vs))"
proof -
  from assms obtain variations where
    r: "getTitleVariations t = Inr (filter (\<lambda>v. length v > 0) variations)" and
    d: "distinct variations" and n: "normalizeTitle t \<in> set variations" and o: "t \<in> set variations"
    by (rule getTitleVariations_Inr)
  let ?vs = "filter (\<lambda>v. length v > 0) variations"
  have dv: "distinct ?vs" using d by simp
  have e: "[] \<notin> set ?vs" by simp
  have t: "t \<in> set ?vs" if "t \<noteq> []" using o that by simp
  have nt: "t \<noteq> []" if "normalizeTitle t \<noteq> []"
    using that normalizeTitle_Nil by auto
  have nn: "normalizeTitle t \<in> set ?vs" if "normalizeTitle t \<noteq> []" using n that by simp
  have two: "2 \<le> length ?vs" if "normalizeTitle t \<noteq> []" "t \<noteq> normalizeTitle t"
    using dv t[OF nt[OF that(1)]] nn[OF that(1)] that(2) by (rule two_members)
  have ne: "?vs \<noteq> []" if "normalizeTitle t \<noteq> []"
    using nn[OF that] by (auto simp del: set_filter)
  from r dv e t nt nn two ne show ?thesis by blast
qed

theorem getTitleVariations_members_witness:
  "get_property (toLowerCase (normalizeTitle ''The Hobbit'')) \<noteq> Inherited \<and>
   ''The Hobbit'' \<noteq> [] \<and> normalizeTitle ''The Hobbit'' \<noteq> [] \<and>
   ''The Hobbit'' \<noteq> normalizeTitle ''The Hobbit'' \<and>
   (\<exists>vs. getTitleVariations ''The Hobbit'' = Inr vs \<and> distinct vs \<and>
      normalizeTitle ''The Hobbit'' \<in> set vs \<and> ''The Hobbit'' \<in> set vs \<and> vs \<noteq> [] \<and>
      2 \<le> length vs)"
proof -
  have p: "get_property (toLowerCase (normalizeTitle ''The Hobbit'')) \<noteq> Inherited"
    by code_simp
  have n: "normalizeTitle ''The Hobbit'' \<noteq> []" "''The Hobbit'' \<noteq> normalizeTitle ''The Hobbit''"
    by code_simp+
  from getTitleVariations_members[OF p] n
  have "\<exists>vs. getTitleVariations ''The Hobbit'' = Inr vs \<and> distinct vs \<and>
      normalizeTitle ''The Hobbit'' \<in> set vs \<and> ''The Hobbit'' \<in> set vs \<and> vs \<noteq> [] \<and>
      2 \<le> length vs"
    by blast
  with p n show ?thesis by simp
qed

text \<open>
  C6 as stated fails: for the empty title the normalized form and the original are both
  the empty string, which is filtered out, and the array that is returned is empty.
\<close>

theorem getTitleVariations_members_counterexample:
  "normalizeTitle [] = [] \<and> getTitleVariations [] = Inr []"
  by code_simp

end
